theory Spec2Isabelle
  imports Main
begin

section \<open>Effects and outcomes\<close>

text \<open>
  The operator is a sequence of calls into collaborators (the controller manager, the
  object cache, the credential store, the health server, the API server) and of log
  lines.  The model records every such call of a goroutine as an effect, in program
  order, and returns with it the way the code leaves the function: it returns a value
  (\<open>Done\<close>), the process exits through \<open>log.Fatal\<close>/\<open>log.Fatalf\<close>, called here
  or in another goroutine (\<open>Exit\<close>), a nil pointer is dereferenced (\<open>Panic\<close>), or
  the environment that was supplied ends while the code is still waiting or looping
  (\<open>Pending\<close>).
\<close>

datatype level = Debug | Info | Warn | Fatal

datatype 'a outcome = Done 'a | Exit | Panic | Pending

text \<open>
  Modelled from the spec: the Sidecar Component Object of package
  \<open>components/v1alpha1\<close>, whose declaration is not part of the sources: it is
  identified by (namespace, name) and carries a payload opaque to the operator.
\<close>

record Component =
  Namespace :: string
  Name :: string
  Spec :: string

text \<open>
  A callback payload has Go's type \<open>any\<close>: the nil interface, a \<open>*Component\<close>
  (which may itself be a nil pointer), or a value of some other type, named here by the
  type's name.
\<close>

datatype obj = NilObj | ComponentPtr "Component option" | OtherObj string

section \<open>Options and the objects NewOperator constructs\<close>

text \<open>\<open>time.Duration\<close> is a number of nanoseconds.\<close>

type_synonym duration = int

record Options =
  Config :: string
  CertChainPath :: string
  LeaderElection :: bool
  WatchdogEnabled :: bool
  WatchdogInterval :: duration
  WatchdogMaxRestartsPerMin :: int
  WatchNamespace :: string
  ServiceReconcilerEnabled :: bool
  ArgoRolloutServiceReconcilerEnabled :: bool

text \<open>The fields of \<open>ctrl.Options\<close> that NewOperator sets (the scheme is a package global).\<close>

record ctrl_Options =
  MetricsBindAddress :: string
  mgr_LeaderElection :: bool
  LeaderElectionID :: string
  mgr_Namespace :: string

text \<open>The fields of \<open>DaprWatchdog\<close> that NewOperator sets (the client is the manager's).\<close>

record DaprWatchdog =
  interval :: duration
  maxRestartsPerMin :: int

text \<open>
  Modelled from the spec: the Certificate Chain of package \<open>credentials\<close>, whose
  declaration is not part of the sources: \<open>{rootCert, cert, privateKey}\<close> byte blobs.
\<close>

type_synonym bytes = string

record CertChain =
  rootCert :: bytes
  cert :: bytes
  privateKey :: bytes

text \<open>Errors are carried as their message.\<close>

type_synonym err = string

text \<open>
  The effects, in the order of the source.  \<open>Log\<close> is a call of the logger with its
  level, format and arguments.  Of NewOperator: \<open>ctrl.GetConfig\<close>,
  \<open>ctrl.NewManager\<close> with its options, \<open>mgr.Add\<close> of the watchdog,
  \<open>handlers.NewDaprHandlerWithOptions\<close> with the Argo flag, \<open>daprHandler.Init\<close>,
  \<open>api.NewAPIServer\<close>, \<open>GetInformer\<close> and \<open>AddEventHandler\<close>.  Of the handlers:
  \<open>apiServer.OnComponentUpdated\<close>.  Of Run: the goroutine of \<open>mgr.Start\<close>, the
  return of \<open>WaitForCacheSync\<close> with its result, the return of
  \<open>LoadConfiguration\<close> (with the configuration's name and whether it succeeded),
  \<open>credentials.NewTLSCredentials\<close>; of loadCertChain: \<open>context.WithTimeout\<close> of
  one minute, the goroutine that runs \<open>fswatcher.Watch\<close> on a path, the return of
  \<open>LoadFromDisk\<close> on three paths (and whether it succeeded), a receive from
  \<open>fsevent\<close> that returns, the return of \<open>fswatcher.Watch\<close> in the goroutine,
  \<open>close(fsevent)\<close>, \<open>watchCancel()\<close>; then \<open>health.NewServer\<close>, the
  goroutine of \<open>healthzServer.Run\<close> on a port, the call of \<open>apiServer.Run\<close> with
  the chain, the API server binding its listeners, and \<open>healthzServer.Ready()\<close>.
\<close>

datatype effect =
    Log level string "string list"
  | GetConfig
  | NewManager ctrl_Options
  | MgrAdd DaprWatchdog
  | NewDaprHandlerWithOptions bool
  | HandlerInit
  | NewAPIServer
  | GetInformer
  | AddEventHandler
  | OnComponentUpdated Component
  | GoMgrStart
  | WaitForCacheSync bool
  | LoadConfiguration string bool
  | NewTLSCredentialsE string
  | WithTimeoutMinute
  | GoWatch string
  | LoadFromDiskE string string string bool
  | RecvFsevent
  | WatchReturned
  | CloseFsevent
  | WatchCancel
  | NewHealthServer
  | GoHealthzRun nat
  | ApiServerRun CertChain
  | ApiListening
  | HealthzReady

text \<open>
  Sequencing: the effects of the first computation, then, when it returns, those of the
  second; an exit, a panic or an exhausted environment ends the sequence.
\<close>

fun andThen :: "effect list \<times> 'a outcome \<Rightarrow> ('a \<Rightarrow> effect list \<times> 'b outcome)
    \<Rightarrow> effect list \<times> 'b outcome" where
  "andThen (es, Done x) f = (es @ fst (f x), snd (f x))"
| "andThen (es, Exit) f = (es, Exit)"
| "andThen (es, Panic) f = (es, Panic)"
| "andThen (es, Pending) f = (es, Pending)"

section \<open>The Change Notifier\<close>

text \<open>
  \<open>syncComponent\<close>: the type assertion \<open>obj.(*componentsapi.Component)\<close> succeeds
  for a \<open>*Component\<close>, nil or not; the arguments of \<open>log.Debugf\<close> then read
  \<open>c.Namespace\<close>, which panics on a nil pointer.  When the assertion fails the
  function does nothing at all.
\<close>

fun syncComponent :: "obj \<Rightarrow> effect list \<times> unit outcome" where
  "syncComponent (ComponentPtr (Some c)) =
     ([Log Debug ''Observed component to be synced, %s/%s'' [Namespace c, Name c],
       OnComponentUpdated c], Done ())"
| "syncComponent (ComponentPtr None) = ([], Panic)"
| "syncComponent NilObj = ([], Done ())"
| "syncComponent (OtherObj ty) = ([], Done ())"

text \<open>
  The events an informer delivers.  NewOperator registers \<open>AddFunc\<close> and
  \<open>UpdateFunc\<close> only; \<open>DeleteFunc\<close> is nil, so a delete event calls nothing.
\<close>

datatype cache_event = Add obj | Update obj obj | Delete obj

definition AddFunc :: "obj \<Rightarrow> effect list \<times> unit outcome" where
  "AddFunc ob = syncComponent ob"

definition UpdateFunc :: "obj \<Rightarrow> obj \<Rightarrow> effect list \<times> unit outcome" where
  "UpdateFunc oldObj newObj = syncComponent newObj"

fun handleEvent :: "cache_event \<Rightarrow> effect list \<times> unit outcome" where
  "handleEvent (Add ob) = AddFunc ob"
| "handleEvent (Update oldObj newObj) = UpdateFunc oldObj newObj"
| "handleEvent (Delete ob) = ([], Done ())"

text \<open>The cache's dispatch goroutine calls the handlers one event after the other.\<close>

fun notifier :: "cache_event list \<Rightarrow> effect list \<times> unit outcome" where
  "notifier [] = ([], Done ())"
| "notifier (ev # evs) = andThen (handleEvent ev) (\<lambda>_. notifier evs)"

section \<open>NewOperator\<close>

text \<open>
  What the collaborators called by NewOperator return is the environment: for each
  fallible call, its error or none.
\<close>

record new_env =
  GetConfig_err :: "err option"
  NewManager_err :: "err option"
  Add_err :: "err option"
  Init_err :: "err option"
  GetInformer_err :: "err option"

text \<open>
  Modelled from the spec: \<open>TLSCredentials\<close> of package \<open>credentials\<close>, which is
  not part of the sources: three well-known file paths (root CA, leaf certificate, private
  key) under a configured base directory.  The file names are those of the spec's
  scenario, \<open>/certs/{ca,cert,key}.pem\<close>.
\<close>

record TLSCredentials =
  certChainDir :: string

definition NewTLSCredentials :: "string \<Rightarrow> TLSCredentials" where
  "NewTLSCredentials path = \<lparr>certChainDir = path\<rparr>"

definition Path :: "TLSCredentials \<Rightarrow> string" where
  "Path cr = certChainDir cr"

definition RootCertPath :: "TLSCredentials \<Rightarrow> string" where
  "RootCertPath cr = certChainDir cr @ ''/ca.pem''"

definition CertPath :: "TLSCredentials \<Rightarrow> string" where
  "CertPath cr = certChainDir cr @ ''/cert.pem''"

definition KeyPath :: "TLSCredentials \<Rightarrow> string" where
  "KeyPath cr = certChainDir cr @ ''/key.pem''"

text \<open>
  Modelled from the spec: the operator configuration of this package (\<open>Config\<close>, loaded
  by \<open>LoadConfiguration\<close>, neither part of the sources): settings opaque to the
  operator, to which the credential paths are attached.
\<close>

record Config =
  settings :: string
  Credentials :: TLSCredentials

record operator =
  configName :: string
  certChainPath :: string
  config :: "Config option"

text \<open>A call followed by \<open>if err != nil { log.Fatalf(fmt, err) }\<close>.\<close>

definition checked :: "effect \<Rightarrow> err option \<Rightarrow> string \<Rightarrow> effect list \<times> unit outcome" where
  "checked call e fmt =
     (case e of None \<Rightarrow> ([call], Done ())
      | Some msg \<Rightarrow> ([call, Log Fatal fmt [msg]], Exit))"

definition addWatchdog :: "Options \<Rightarrow> new_env \<Rightarrow> effect list \<times> unit outcome" where
  "addWatchdog opts env =
     (if WatchdogEnabled opts then
        andThen
          (if \<not> LeaderElection opts
           then ([Log Warn ''Leadership election is forcibly enabled when the Dapr Watchdog is enabled'' []], Done ())
           else ([], Done ()))
          (\<lambda>_. checked
                 (MgrAdd \<lparr>interval = WatchdogInterval opts,
                          maxRestartsPerMin = WatchdogMaxRestartsPerMin opts\<rparr>)
                 (Add_err env) ''Unable to add watchdog controller, err: %s'')
      else ([Log Info ''Dapr Watchdog is not enabled'' []], Done ()))"

definition initHandler :: "Options \<Rightarrow> new_env \<Rightarrow> effect list \<times> unit outcome" where
  "initHandler opts env =
     (if ServiceReconcilerEnabled opts then
        andThen ([NewDaprHandlerWithOptions (ArgoRolloutServiceReconcilerEnabled opts)], Done ())
          (\<lambda>_. checked HandlerInit (Init_err env) ''Unable to initialize handler, err: %s'')
      else ([], Done ()))"

definition NewOperator :: "Options \<Rightarrow> new_env \<Rightarrow> effect list \<times> operator outcome" where
  "NewOperator opts env =
     andThen (checked GetConfig (GetConfig_err env)
                ''Unable to get controller runtime configuration, err: %s'') (\<lambda>_.
     andThen (checked
                (NewManager \<lparr>MetricsBindAddress = ''0'',
                             mgr_LeaderElection = LeaderElection opts,
                             LeaderElectionID = ''operator.dapr.io'',
                             mgr_Namespace = WatchNamespace opts\<rparr>)
                (NewManager_err env) ''Unable to start manager, err: %s'') (\<lambda>_.
     andThen (addWatchdog opts env) (\<lambda>_.
     andThen (initHandler opts env) (\<lambda>_.
     andThen ([NewAPIServer], Done ()) (\<lambda>_.
     andThen (checked GetInformer (GetInformer_err env)
                ''Unable to get setup components informer, err: %s'') (\<lambda>_.
       ([AddEventHandler],
        Done \<lparr>configName = Config opts, certChainPath = CertChainPath opts,
              config = None\<rparr>)))))))"

section \<open>Loading the configuration and the certificate chain\<close>

definition prepareConfig :: "operator \<Rightarrow> err + Config \<Rightarrow> effect list \<times> operator outcome" where
  "prepareConfig op res =
     (case res of
        Inl e \<Rightarrow>
          ([LoadConfiguration (configName op) False,
            Log Fatal ''Unable to load configuration, config: %s, err: %s'' [configName op, e]],
           Exit)
      | Inr cfg \<Rightarrow>
          ([LoadConfiguration (configName op) True, NewTLSCredentialsE (certChainPath op)],
           Done (op\<lparr>config := Some (cfg\<lparr>Credentials := NewTLSCredentials (certChainPath op)\<rparr>)\<rparr>)))"

text \<open>The credential store: the files that can be read, with their contents.\<close>

type_synonym fs = "string \<Rightarrow> bytes option"

text \<open>
  Modelled from the spec: \<open>credentials.LoadFromDisk\<close>, which is not part of the sources:
  it attempts to read all three files and returns the chain when all three reads
  succeed, an error for a missing or unreadable file otherwise.
\<close>

definition LoadFromDisk :: "fs \<Rightarrow> string \<Rightarrow> string \<Rightarrow> string \<Rightarrow> err + CertChain" where
  "LoadFromDisk disk rootPath certFile keyFile =
     (case disk rootPath of
        None \<Rightarrow> Inl (''cannot read '' @ rootPath)
      | Some r \<Rightarrow>
          (case disk certFile of
             None \<Rightarrow> Inl (''cannot read '' @ certFile)
           | Some c \<Rightarrow>
               (case disk keyFile of
                  None \<Rightarrow> Inl (''cannot read '' @ keyFile)
                | Some k \<Rightarrow> Inr \<lparr>rootCert = r, cert = c, privateKey = k\<rparr>)))"

text \<open>
  The errors the watch goroutine tells apart: \<open>context.Canceled\<close>,
  \<open>context.DeadlineExceeded\<close>, any other error; \<open>None\<close> is Go's nil.
\<close>

datatype go_error = Canceled | DeadlineExceeded | OtherError string

fun errorText :: "go_error option \<Rightarrow> string" where
  "errorText None = ''<nil>''"
| "errorText (Some Canceled) = ''context canceled''"
| "errorText (Some DeadlineExceeded) = ''context deadline exceeded''"
| "errorText (Some (OtherError msg)) = msg"

text \<open>
  The goroutine that \<open>loadCertChain\<close> starts, as a function of what
  \<open>fswatcher.Watch\<close> returns (\<open>werr\<close>) and of the value of \<open>watchCtx.Err()\<close> read
  afterwards (\<open>ctxErr\<close>): it logs, runs the watch, and once the watch has returned it
  ends the process on an error that is not \<open>context.Canceled\<close>, closes \<open>fsevent\<close>
  otherwise, and then ends the process when the context's deadline was exceeded.  Its
  effects are its own: nothing orders them with those of the main goroutine but the
  start of the goroutine, the channel and the end of the process.
\<close>

definition afterWatch :: "go_error option \<Rightarrow> go_error option \<Rightarrow> effect list \<times> unit outcome" where
  "afterWatch werr ctxErr =
     (if werr \<noteq> None \<and> werr \<noteq> Some Canceled then
        ([WatchReturned, Log Fatal ''Error starting watch on filesystem: %s'' [errorText werr]],
         Exit)
      else if ctxErr = Some DeadlineExceeded then
        ([WatchReturned, CloseFsevent,
          Log Fatal ''Timeout while waiting to load TLS certificates'' []], Exit)
      else ([WatchReturned, CloseFsevent], Done ()))"

definition watchGoroutine :: "string \<Rightarrow> go_error option \<Rightarrow> go_error option \<Rightarrow> effect list \<times> unit outcome" where
  "watchGoroutine path werr ctxErr =
     andThen ([Log Info ''Starting watch for certs on filesystem: %s'' [path]], Done ())
       (\<lambda>_. afterWatch werr ctxErr)"

text \<open>
  What the watch goroutine does in one round of the main goroutine's loop: the watch
  sends an event, or \<open>fswatcher.Watch\<close> returns (with its error and the context's
  error).  A watch that returns ends the process when the goroutine then calls
  \<open>log.Fatal\<close>.
\<close>

datatype wait = FsEvent | WatchEnds "go_error option" "go_error option"

fun endsProcess :: "wait \<Rightarrow> bool" where
  "endsProcess FsEvent = False"
| "endsProcess (WatchEnds werr ctxErr) = (snd (afterWatch werr ctxErr) = Exit)"

text \<open>
  The receive \<open><-fsevent\<close> of the main goroutine; the result says whether the channel
  is closed afterwards.  From a closed channel it returns at once.  Otherwise it returns
  with the event the watch sends; or the watch returns, and the goroutine ends the
  process or closes the channel, which ends the receive.
\<close>

definition receive :: "bool \<Rightarrow> wait \<Rightarrow> effect list \<times> bool outcome" where
  "receive closed w =
     (if closed then ([RecvFsevent], Done True)
      else if endsProcess w then ([], Exit)
      else ([RecvFsevent], Done (w \<noteq> FsEvent)))"

text \<open>
  The \<open>for\<close> loop of \<open>loadCertChain\<close>: the effects of the main goroutine.  Each
  iteration consumes one round of the environment: the state of the disk at the read,
  and what the watch goroutine does in that round.  \<open>closed\<close> says that the goroutine
  has closed \<open>fsevent\<close> and is gone.  A watch goroutine that ends the process in a
  round does so whether the read has failed or not: after a read that succeeded the main
  goroutine then gets no further.  The loop leaves only through \<open>break\<close> after a read
  without error; when the rounds run out it is still reading or waiting.
\<close>

fun certLoop :: "TLSCredentials \<Rightarrow> bool \<Rightarrow> (fs \<times> wait) list \<Rightarrow> effect list \<times> CertChain outcome" where
  "certLoop cr closed [] = ([], Pending)"
| "certLoop cr closed ((disk, w) # rounds) =
     (case LoadFromDisk disk (RootCertPath cr) (CertPath cr) (KeyPath cr) of
        Inr chain \<Rightarrow>
          andThen
            ([LoadFromDiskE (RootCertPath cr) (CertPath cr) (KeyPath cr) True],
             if \<not> closed \<and> endsProcess w then Exit else Done ())
            (\<lambda>_. ([Log Info ''TLS certificates loaded successfully'' []], Done chain))
      | Inl e \<Rightarrow>
          andThen
            ([LoadFromDiskE (RootCertPath cr) (CertPath cr) (KeyPath cr) False,
              Log Info ''TLS certificate not found; waiting for disk changes. err=%v'' [e]],
             Done ())
            (\<lambda>_. andThen (receive closed w)
               (\<lambda>closed'. andThen
                  ([Log Debug ''Watcher found activity on filesystem'' []], Done ())
                  (\<lambda>_. certLoop cr closed' rounds))))"

text \<open>
  \<open>loadCertChain\<close>, the main goroutine: the watch context (one minute), the start
  of the goroutine that runs the watch, the loop, and \<open>watchCancel()\<close> behind the
  loop.  \<open>o.config\<close> is a pointer: reading the credentials through a nil one panics.
  What the watch goroutine does once the context is cancelled is \<open>watchGoroutine\<close>
  at what the watch then returns.
\<close>

definition loadCertChain :: "operator \<Rightarrow> (fs \<times> wait) list \<Rightarrow> effect list \<times> CertChain outcome" where
  "loadCertChain op rounds =
     andThen ([Log Info ''Getting TLS certificates'' [], WithTimeoutMinute], Done ()) (\<lambda>_.
       case config op of
         None \<Rightarrow> ([], Panic)
       | Some cfg \<Rightarrow>
           andThen ([GoWatch (Path (Credentials cfg))], Done ()) (\<lambda>_.
           andThen (certLoop (Credentials cfg) False rounds) (\<lambda>chain.
             ([WatchCancel], Done chain))))"

section \<open>Run\<close>

definition healthzPort :: nat where
  "healthzPort = 8080"

text \<open>The readiness callback that Run passes to the API server.\<close>

definition onReady :: "effect list" where
  "onReady = [HealthzReady, Log Info ''Dapr Operator started'' []]"

text \<open>
  Modelled from the spec: \<open>api.Server.Run(ctx, certChain, onReady)\<close> of package
  \<open>operator/api\<close>, which is not part of the sources: a blocking call that is given the
  chain and the readiness callback; it binds its listeners and only then fires the
  callback; it returns only on shutdown or on a fatal error.  Whether the listeners can be
  bound is the environment's, as is the way the call ends once they are.
\<close>

definition apiServerRun :: "CertChain \<Rightarrow> bool \<Rightarrow> effect list \<times> unit outcome" where
  "apiServerRun chain bound =
     (if bound then (ApiServerRun chain # ApiListening # onReady, Done ())
      else ([ApiServerRun chain], Exit))"

text \<open>
  The environment of one run: the events the cache delivers to the registered handlers
  after the manager has been started and before \<open>WaitForCacheSync\<close> returns, the
  result of \<open>WaitForCacheSync\<close>, the result of \<open>LoadConfiguration\<close>, the rounds of
  the certificate loop, whether the API server can bind its listeners, the events the
  cache delivers while the API server runs, and the way the API server's call ends.
\<close>

record run_env =
  events_before_sync :: "cache_event list"
  sync_result :: bool
  config_result :: "err + Config"
  cert_rounds :: "(fs \<times> wait) list"
  api_bound :: bool
  events_while_serving :: "cache_event list"
  api_ending :: "unit outcome"

definition waitForCacheSync :: "bool \<Rightarrow> effect list \<times> unit outcome" where
  "waitForCacheSync synced =
     (if \<not> synced
      then ([WaitForCacheSync False, Log Fatal ''Failed to wait for cache sync'' []], Exit)
      else ([WaitForCacheSync True], Done ()))"

text \<open>
  The two goroutines that Run starts: each makes one blocking call and ends the process
  when that call returns an error.
\<close>

definition mgrStartGoroutine :: "err option \<Rightarrow> effect list \<times> unit outcome" where
  "mgrStartGoroutine e =
     (case e of None \<Rightarrow> ([], Done ())
      | Some msg \<Rightarrow> ([Log Fatal ''Failed to start controller manager, err: %s'' [msg]], Exit))"

definition healthzGoroutine :: "err option \<Rightarrow> effect list \<times> unit outcome" where
  "healthzGoroutine e =
     (case e of None \<Rightarrow> ([], Done ())
      | Some msg \<Rightarrow> ([Log Fatal ''Failed to start healthz server: %s'' [msg]], Exit))"

text \<open>
  The main goroutine of \<open>Run\<close>, with the handler calls of the cache's dispatch
  goroutine placed where the environment delivers the events.  The call of the API
  server blocks: the events delivered while it serves come before its ending.  The
  deferred \<open>HandleCrash\<close> acts on a panic of this goroutine only, and Run itself
  dereferences nothing that can be nil.
\<close>

definition Run :: "operator \<Rightarrow> run_env \<Rightarrow> effect list \<times> unit outcome" where
  "Run op env =
     andThen ([Log Info ''Dapr Operator is starting'' [], GoMgrStart], Done ()) (\<lambda>_.
     andThen (notifier (events_before_sync env)) (\<lambda>_.
     andThen (waitForCacheSync (sync_result env)) (\<lambda>_.
     andThen (prepareConfig op (config_result env)) (\<lambda>op'.
     andThen (loadCertChain op' (cert_rounds env)) (\<lambda>certChain.
     andThen ([NewHealthServer, GoHealthzRun healthzPort], Done ()) (\<lambda>_.
     andThen (apiServerRun certChain (api_bound env)) (\<lambda>_.
     andThen (notifier (events_while_serving env)) (\<lambda>_.
     andThen ([], api_ending env) (\<lambda>_.
       ([Log Info ''Dapr Operator is shutting down'' []], Done ()))))))))))"

text \<open>
  The two halves of \<open>Run\<close>: the startup up to the end of the certificate loading,
  and what follows it.
\<close>

definition startup :: "operator \<Rightarrow> run_env \<Rightarrow> effect list \<times> CertChain outcome" where
  "startup op env =
     andThen ([Log Info ''Dapr Operator is starting'' [], GoMgrStart], Done ()) (\<lambda>_.
     andThen (notifier (events_before_sync env)) (\<lambda>_.
     andThen (waitForCacheSync (sync_result env)) (\<lambda>_.
     andThen (prepareConfig op (config_result env)) (\<lambda>op'.
       loadCertChain op' (cert_rounds env)))))"

definition serving :: "run_env \<Rightarrow> CertChain \<Rightarrow> effect list \<times> unit outcome" where
  "serving env certChain =
     andThen ([NewHealthServer, GoHealthzRun healthzPort], Done ()) (\<lambda>_.
     andThen (apiServerRun certChain (api_bound env)) (\<lambda>_.
     andThen (notifier (events_while_serving env)) (\<lambda>_.
     andThen ([], api_ending env) (\<lambda>_.
       ([Log Info ''Dapr Operator is shutting down'' []], Done ())))))"

text \<open>
  A goroutine that calls \<open>log.Fatal\<close> (the manager, the health server, the watch)
  ends the process wherever the main goroutine then is: what has been observed of a run
  when it is cut after \<open>n\<close> effects.
\<close>

definition observed :: "nat \<Rightarrow> operator \<Rightarrow> run_env \<Rightarrow> effect list" where
  "observed n op env = take n (fst (Run op env))"


section \<open>The Restart Watchdog\<close>

text \<open>
  Modelled from the spec: the Restart Watchdog and its Restart Budget.  The methods of
  \<open>DaprWatchdog\<close> are not part of the sources; NewOperator only constructs it.

  A Watchdog Target is a pod descriptor; it is eligible for a restart when it is marked
  for sidecar injection and the expected sidecar is missing.  The Restart Budget is a
  counter \<open>{count, windowStart}\<close> that is reset when its one-minute window has
  elapsed.  A tick of the elected leader enumerates the eligible targets and, for each
  of them, attempts to spend one unit of the budget; once the budget is exhausted for
  the current window the remaining targets are skipped, and nothing is queued.  A
  non-leader performs no enumeration; a tick whose enumeration fails is logged and
  issues nothing.  The budget is mutated by one mutator at a time: a run is a sequence
  of ticks.
\<close>

type_synonym time = int

definition minute :: duration where
  "minute = 60 * 1000000000"

record WatchdogTarget =
  podNamespace :: string
  podName :: string
  ownerKind :: string
  hasExpectedSidecar :: bool
  sidecarInjectionEligible :: bool

record RestartBudget =
  count :: nat
  windowStart :: time

text \<open>A restart action: the pod deleted, when, and in which window of the budget.\<close>

record RestartAction =
  restarted :: WatchdogTarget
  issuedAt :: time
  window :: time


definition openWindow :: "time \<Rightarrow> RestartBudget \<Rightarrow> RestartBudget" where
  "openWindow now b =
     (if windowStart b + minute \<le> now then \<lparr>count = 0, windowStart = now\<rparr> else b)"







definition issuedIn :: "time \<Rightarrow> RestartAction list \<Rightarrow> nat" where
  "issuedIn w acts = length (filter (\<lambda>a. window a = w) acts)"

text \<open>
  What holds of a budget and of the restart actions issued so far: the counter is within
  the limit, it covers the actions issued in the current window, and no action belongs
  to a later window.
\<close>

definition budgetOk :: "int \<Rightarrow> RestartBudget \<Rightarrow> RestartAction list \<Rightarrow> bool" where
  "budgetOk limit b acts =
     (count b \<le> nat limit \<and>
      issuedIn (windowStart b) acts \<le> count b \<and>
      list_all (\<lambda>a. window a \<le> windowStart b) acts)"



definition apart :: "time \<Rightarrow> time \<Rightarrow> bool" where
  "apart v w = (v = w \<or> v + minute \<le> w \<or> w + minute \<le> v)"


section \<open>Order of effects\<close>

text \<open>
  \<open>precedes a b t\<close>: in \<open>t\<close> no effect satisfying \<open>b\<close> occurs unless an effect
  satisfying \<open>a\<close> has occurred before it.
\<close>

fun precedes :: "('e \<Rightarrow> bool) \<Rightarrow> ('e \<Rightarrow> bool) \<Rightarrow> 'e list \<Rightarrow> bool" where
  "precedes a b [] = True"
| "precedes a b (e # es) = (if a e then True else if b e then False else precedes a b es)"

text \<open>
  The startup step an effect belongs to: 1 the manager, 2 the cache sync, 3 the
  configuration, 4 the certificate chain, 5 the health server, 6 the API server (with the
  readiness it reports); 0 for log lines and for the notifications of the cache's
  dispatch goroutine, which belong to no step.  The effects of NewOperator come before
  Run.
\<close>

fun step :: "effect \<Rightarrow> nat" where
  "step GoMgrStart = 1"
| "step (WaitForCacheSync r) = 2"
| "step (LoadConfiguration nm r) = 3"
| "step (NewTLSCredentialsE path) = 3"
| "step WithTimeoutMinute = 4"
| "step (GoWatch path) = 4"
| "step (LoadFromDiskE p1 p2 p3 r) = 4"
| "step RecvFsevent = 4"
| "step WatchReturned = 4"
| "step CloseFsevent = 4"
| "step WatchCancel = 4"
| "step NewHealthServer = 5"
| "step (GoHealthzRun port) = 5"
| "step (ApiServerRun chain) = 6"
| "step ApiListening = 6"
| "step HealthzReady = 6"
| "step e = 0"

definition fromStep :: "nat \<Rightarrow> effect \<Rightarrow> bool" where
  "fromStep k e = (k \<le> step e)"

fun isNotification :: "effect \<Rightarrow> bool" where
  "isNotification (OnComponentUpdated c) = True"
| "isNotification e = False"

fun isConfigLoaded :: "effect \<Rightarrow> bool" where
  "isConfigLoaded (LoadConfiguration nm r) = r"
| "isConfigLoaded e = False"

fun isChainLoaded :: "effect \<Rightarrow> bool" where
  "isChainLoaded (LoadFromDiskE p1 p2 p3 r) = r"
| "isChainLoaded e = False"

fun isLoadFromDisk :: "effect \<Rightarrow> bool" where
  "isLoadFromDisk (LoadFromDiskE p1 p2 p3 r) = True"
| "isLoadFromDisk e = False"


fun isGoWatch :: "effect \<Rightarrow> bool" where
  "isGoWatch (GoWatch path) = True"
| "isGoWatch e = False"

fun isLog :: "effect \<Rightarrow> bool" where
  "isLog (Log l fmt args) = True"
| "isLog e = False"

text \<open>
  The components passed to \<open>OnComponentUpdated\<close> in a sequence of effects, in order;
  and the components the cache hands to the handlers in a sequence of events: the payload
  of an add event and the new object of an update event when it is a non-nil
  \<open>*Component\<close>, up to the first nil \<open>*Component\<close>, at which the handler panics.
\<close>

fun forwarded :: "effect list \<Rightarrow> Component list" where
  "forwarded [] = []"
| "forwarded (OnComponentUpdated c # es) = c # forwarded es"
| "forwarded (e # es) = forwarded es"

fun delivered :: "cache_event list \<Rightarrow> Component list" where
  "delivered [] = []"
| "delivered (Add (ComponentPtr (Some c)) # evs) = c # delivered evs"
| "delivered (Add (ComponentPtr None) # evs) = []"
| "delivered (Update oldObj (ComponentPtr (Some c)) # evs) = c # delivered evs"
| "delivered (Update oldObj (ComponentPtr None) # evs) = []"
| "delivered (ev # evs) = delivered evs"

text \<open>All three files of the credential paths can be read.\<close>

definition readable :: "TLSCredentials \<Rightarrow> fs \<Rightarrow> bool" where
  "readable cr disk =
     (disk (RootCertPath cr) \<noteq> None \<and> disk (CertPath cr) \<noteq> None \<and> disk (KeyPath cr) \<noteq> None)"

text \<open>The chain is what a read of all three files on this disk gives.\<close>

definition fullyLoaded :: "TLSCredentials \<Rightarrow> fs \<Rightarrow> CertChain \<Rightarrow> bool" where
  "fullyLoaded cr disk chain =
     (LoadFromDisk disk (RootCertPath cr) (CertPath cr) (KeyPath cr) = Inr chain \<and>
      disk (RootCertPath cr) = Some (rootCert chain) \<and>
      disk (CertPath cr) = Some (cert chain) \<and>
      disk (KeyPath cr) = Some (privateKey chain))"

definition timeoutMessage :: string where
  "timeoutMessage = ''Timeout while waiting to load TLS certificates''"

section \<open>Example inputs\<close>

definition exampleComponent :: Component where
  "exampleComponent = \<lparr>Namespace = ''default'', Name = ''statestore'', Spec = ''state.redis''\<rparr>"

definition exampleOptions :: Options where
  "exampleOptions =
     \<lparr>Config = ''daprsystem'', CertChainPath = ''/certs'', LeaderElection = False,
      WatchdogEnabled = True, WatchdogInterval = 10 * 1000000000,
      WatchdogMaxRestartsPerMin = 2, WatchNamespace = [],
      ServiceReconcilerEnabled = False, ArgoRolloutServiceReconcilerEnabled = False\<rparr>"

definition noErrors :: new_env where
  "noErrors =
     \<lparr>GetConfig_err = None, NewManager_err = None, Add_err = None, Init_err = None,
      GetInformer_err = None\<rparr>"

definition exampleOperator :: operator where
  "exampleOperator = \<lparr>configName = ''daprsystem'', certChainPath = ''/certs'', config = None\<rparr>"

definition loadedOperator :: operator where
  "loadedOperator =
     \<lparr>configName = ''daprsystem'', certChainPath = ''/certs'',
      config = Some \<lparr>settings = [], Credentials = NewTLSCredentials ''/certs''\<rparr>\<rparr>"

definition emptyDisk :: fs where
  "emptyDisk = (\<lambda>path. None)"

definition exampleDisk :: fs where
  "exampleDisk =
     (\<lambda>path. if path = ''/certs/ca.pem'' then Some ''ROOT''
             else if path = ''/certs/cert.pem'' then Some ''CERT''
             else if path = ''/certs/key.pem'' then Some ''KEY''
             else None)"

definition exampleChain :: CertChain where
  "exampleChain = \<lparr>rootCert = ''ROOT'', cert = ''CERT'', privateKey = ''KEY''\<rparr>"

definition exampleEnv :: run_env where
  "exampleEnv =
     \<lparr>events_before_sync = [Add (ComponentPtr (Some exampleComponent))],
      sync_result = True,
      config_result = Inr \<lparr>settings = [], Credentials = NewTLSCredentials []\<rparr>,
      cert_rounds = [(exampleDisk, FsEvent)],
      api_bound = True,
      events_while_serving = [],
      api_ending = Pending\<rparr>"





section \<open>Sequencing and order: basic facts\<close>

lemma fst_andThen:
  "fst (andThen m f) = fst m @ (case snd m of Done x \<Rightarrow> fst (f x) | _ \<Rightarrow> [])"
  by (cases m; cases "snd m") auto

lemma snd_andThen:
  "snd (andThen m f) =
     (case snd m of Done x \<Rightarrow> snd (f x) | Exit \<Rightarrow> Exit | Panic \<Rightarrow> Panic
      | Pending \<Rightarrow> Pending)"
  by (cases m; cases "snd m") auto

lemma precedes_take: "precedes a b t \<Longrightarrow> precedes a b (take n t)"
proof (induction t arbitrary: n)
  case Nil
  then show ?case by simp
next
  case (Cons e es)
  then show ?case by (cases n) (auto split: if_splits)
qed

lemma precedes_skip:
  "\<forall>e\<in>set xs. \<not> a e \<and> \<not> b e \<Longrightarrow> precedes a b (xs @ ys) = precedes a b ys"
  by (induction xs) auto

lemma precedes_none: "\<forall>e\<in>set xs. \<not> b e \<Longrightarrow> precedes a b xs"
  by (induction xs) auto

lemma precedes_found:
  "\<exists>e\<in>set xs. a e \<Longrightarrow> \<forall>e\<in>set xs. \<not> b e \<Longrightarrow> precedes a b (xs @ ys)"
  by (induction xs) auto



lemma takeWhile_all: "\<forall>x\<in>set xs. P x \<Longrightarrow> takeWhile P (xs @ ys) = xs @ takeWhile P ys"
  by (induction xs) auto

section \<open>Run: the steps of the effects and their order\<close>

lemma handleEvent_step: "e \<in> set (fst (handleEvent ev)) \<Longrightarrow> step e = 0"
  by (cases ev rule: handleEvent.cases; cases "case ev of Add ob \<Rightarrow> ob | Update x ob \<Rightarrow> ob | Delete ob \<Rightarrow> ob" rule: syncComponent.cases)
     (auto simp: AddFunc_def UpdateFunc_def)

lemma notifier_step: "e \<in> set (fst (notifier evs)) \<Longrightarrow> step e = 0"
  by (induction evs) (auto simp: fst_andThen handleEvent_step split: outcome.splits)

text \<open>
  The rounds of the loop: a read that succeeds, with the watch goroutine ending the
  process in that round or not; a failed read followed by a receive from the closed
  channel, by an event, or by the return of the watch.
\<close>

lemma certLoop_loaded_round:
  "LoadFromDisk disk (RootCertPath cr) (CertPath cr) (KeyPath cr) = Inr chain \<Longrightarrow>
   certLoop cr closed ((disk, w) # rounds) =
     (if \<not> closed \<and> endsProcess w
      then ([LoadFromDiskE (RootCertPath cr) (CertPath cr) (KeyPath cr) True], Exit)
      else ([LoadFromDiskE (RootCertPath cr) (CertPath cr) (KeyPath cr) True,
             Log Info ''TLS certificates loaded successfully'' []], Done chain))"
  by simp

lemma certLoop_closed_round:
  "LoadFromDisk disk (RootCertPath cr) (CertPath cr) (KeyPath cr) = Inl e \<Longrightarrow>
   certLoop cr True ((disk, w) # rounds) =
     ([LoadFromDiskE (RootCertPath cr) (CertPath cr) (KeyPath cr) False,
       Log Info ''TLS certificate not found; waiting for disk changes. err=%v'' [e],
       RecvFsevent, Log Debug ''Watcher found activity on filesystem'' []]
      @ fst (certLoop cr True rounds), snd (certLoop cr True rounds))"
  by (simp add: receive_def)

lemma certLoop_event_round:
  "LoadFromDisk disk (RootCertPath cr) (CertPath cr) (KeyPath cr) = Inl e \<Longrightarrow>
   certLoop cr False ((disk, FsEvent) # rounds) =
     ([LoadFromDiskE (RootCertPath cr) (CertPath cr) (KeyPath cr) False,
       Log Info ''TLS certificate not found; waiting for disk changes. err=%v'' [e],
       RecvFsevent, Log Debug ''Watcher found activity on filesystem'' []]
      @ fst (certLoop cr False rounds), snd (certLoop cr False rounds))"
  by (simp add: receive_def)

lemma certLoop_watch_round:
  "LoadFromDisk disk (RootCertPath cr) (CertPath cr) (KeyPath cr) = Inl e \<Longrightarrow>
   certLoop cr False ((disk, WatchEnds werr ctxErr) # rounds) =
     (if snd (afterWatch werr ctxErr) = Exit
      then ([LoadFromDiskE (RootCertPath cr) (CertPath cr) (KeyPath cr) False,
             Log Info ''TLS certificate not found; waiting for disk changes. err=%v'' [e]],
            Exit)
      else ([LoadFromDiskE (RootCertPath cr) (CertPath cr) (KeyPath cr) False,
             Log Info ''TLS certificate not found; waiting for disk changes. err=%v'' [e],
             RecvFsevent, Log Debug ''Watcher found activity on filesystem'' []]
            @ fst (certLoop cr True rounds), snd (certLoop cr True rounds)))"
  by (simp add: receive_def)

lemmas certLoop_rounds =
  certLoop_loaded_round certLoop_closed_round certLoop_event_round certLoop_watch_round

lemma certLoop_induct [consumes 0, case_names empty loaded closed event watch]:
  assumes "\<And>closed. P closed []"
    and "\<And>closed disk w rounds chain.
          LoadFromDisk disk (RootCertPath cr) (CertPath cr) (KeyPath cr) = Inr chain \<Longrightarrow>
          P closed ((disk, w) # rounds)"
    and "\<And>disk w rounds e.
          LoadFromDisk disk (RootCertPath cr) (CertPath cr) (KeyPath cr) = Inl e \<Longrightarrow>
          P True rounds \<Longrightarrow> P True ((disk, w) # rounds)"
    and "\<And>disk rounds e.
          LoadFromDisk disk (RootCertPath cr) (CertPath cr) (KeyPath cr) = Inl e \<Longrightarrow>
          P False rounds \<Longrightarrow> P False ((disk, FsEvent) # rounds)"
    and "\<And>disk werr ctxErr rounds e.
          LoadFromDisk disk (RootCertPath cr) (CertPath cr) (KeyPath cr) = Inl e \<Longrightarrow>
          P True rounds \<Longrightarrow> P False ((disk, WatchEnds werr ctxErr) # rounds)"
  shows "P closed rounds"
proof (induction rounds arbitrary: closed)
  case Nil
  show ?case by (rule assms(1))
next
  case (Cons r rounds)
  obtain disk w where r: "r = (disk, w)" by (cases r)
  show ?case
  proof (cases "LoadFromDisk disk (RootCertPath cr) (CertPath cr) (KeyPath cr)")
    case (Inr chain)
    then show ?thesis unfolding r by (rule assms(2))
  next
    case (Inl e)
    show ?thesis
    proof (cases closed)
      case True
      with assms(3)[OF Inl Cons.IH] show ?thesis by (simp add: r)
    next
      case False
      with assms(4)[OF Inl Cons.IH] assms(5)[OF Inl Cons.IH] show ?thesis
        by (cases w) (simp_all add: r)
    qed
  qed
qed

lemma certLoop_step:
  "e \<in> set (fst (certLoop cr closed rounds)) \<Longrightarrow> step e = 0 \<or> step e = 4"
  by (induction closed rounds rule: certLoop_induct[where cr = cr])
     (auto simp: certLoop_rounds simp del: certLoop.simps(2) split: if_splits)

lemma certLoop_loaded:
  "snd (certLoop cr closed rounds) = Done chain \<Longrightarrow>
   \<exists>e\<in>set (fst (certLoop cr closed rounds)). isChainLoaded e"
  by (induction closed rounds rule: certLoop_induct[where cr = cr])
     (auto simp: certLoop_rounds simp del: certLoop.simps(2) split: if_splits)

lemma loadCertChain_step:
  "e \<in> set (fst (loadCertChain op rounds)) \<Longrightarrow> step e = 0 \<or> step e = 4"
  by (auto simp: loadCertChain_def fst_andThen split: option.splits outcome.splits
           dest: certLoop_step)

lemma loadCertChain_loaded:
  "snd (loadCertChain op rounds) = Done chain \<Longrightarrow>
   \<exists>e\<in>set (fst (loadCertChain op rounds)). isChainLoaded e"
  by (auto simp: loadCertChain_def fst_andThen snd_andThen split: option.splits outcome.splits
           dest: certLoop_loaded)

lemma andThen_assoc: "andThen (andThen m f) g = andThen m (\<lambda>x. andThen (f x) g)"
  by (cases m; cases "snd m") (auto simp: fst_andThen snd_andThen split: outcome.splits prod.splits)

lemma Run_split: "Run op env = andThen (startup op env) (serving env)"
  unfolding Run_def startup_def serving_def andThen_assoc ..

lemma prepareConfig_step:
  "e \<in> set (fst (prepareConfig op res)) \<Longrightarrow> step e = 0 \<or> step e = 3"
  by (auto simp: prepareConfig_def split: sum.splits)

lemma startup_step: "e \<in> set (fst (startup op env)) \<Longrightarrow> step e \<le> 4"
  by (auto simp: startup_def fst_andThen waitForCacheSync_def
           split: outcome.splits if_splits
           dest: notifier_step prepareConfig_step loadCertChain_step)

lemma startup_loaded:
  "snd (startup op env) = Done chain \<Longrightarrow> \<exists>e\<in>set (fst (startup op env)). isChainLoaded e"
  by (auto simp: startup_def fst_andThen snd_andThen
           split: outcome.splits
           dest: loadCertChain_loaded)

lemma serving_step: "e \<in> set (fst (serving env chain)) \<Longrightarrow> step e = 0 \<or> 5 \<le> step e"
  by (auto simp: serving_def fst_andThen apiServerRun_def onReady_def
           split: outcome.splits if_splits
           dest: notifier_step)

lemma isConfigLoaded_step: "isConfigLoaded e \<Longrightarrow> step e = 3"
  by (cases e) auto

lemma isChainLoaded_step: "isChainLoaded e \<Longrightarrow> step e = 4"
  by (cases e) auto

lemma manager_first:
  "precedes (\<lambda>e. e = GoMgrStart) (\<lambda>e. \<not> isLog e) (fst (Run op env))"
  by (simp add: Run_def fst_andThen)

lemma sync_before_config:
  "precedes (\<lambda>e. e = WaitForCacheSync True) (fromStep 3) (fst (Run op env))"
proof -
  let ?a = "\<lambda>e. e = WaitForCacheSync True" and ?b = "fromStep 3"
  have N: "precedes ?a ?b (fst (notifier (events_before_sync env)) @ ys) = precedes ?a ?b ys"
    for ys
    by (rule precedes_skip) (auto simp: fromStep_def dest: notifier_step)
  show ?thesis
    by (simp add: Run_def fst_andThen N waitForCacheSync_def fromStep_def split: outcome.splits)
qed

lemma config_before_chain:
  "precedes isConfigLoaded (fromStep 4) (fst (Run op env))"
proof -
  let ?a = isConfigLoaded and ?b = "fromStep 4"
  have N: "precedes ?a ?b (fst (notifier (events_before_sync env)) @ ys) = precedes ?a ?b ys"
    for ys
  proof (rule precedes_skip, intro ballI conjI)
    fix e assume e: "e \<in> set (fst (notifier (events_before_sync env)))"
    from notifier_step[OF e] show "\<not> isConfigLoaded e"
      using isConfigLoaded_step[of e] by auto
    from notifier_step[OF e] show "\<not> fromStep 4 e" by (simp add: fromStep_def)
  qed
  show ?thesis
    by (simp add: Run_def fst_andThen N waitForCacheSync_def prepareConfig_def fromStep_def
          split: outcome.splits sum.splits)
qed

lemma chain_before_serving:
  "precedes isChainLoaded (fromStep 5) (fst (Run op env))"
proof (cases "snd (startup op env)")
  case (Done chain)
  have "precedes isChainLoaded (fromStep 5) (fst (startup op env) @ fst (serving env chain))"
    by (rule precedes_found[OF startup_loaded[OF Done]])
       (auto simp: fromStep_def dest: startup_step)
  then show ?thesis by (simp add: Run_split fst_andThen Done)
qed (auto simp: Run_split fst_andThen fromStep_def intro!: precedes_none dest: startup_step)

lemma sync_failure:
  assumes "WaitForCacheSync False \<in> set (fst (Run op env))"
  shows "snd (Run op env) = Exit \<and> (\<forall>e\<in>set (fst (Run op env)). \<not> fromStep 3 e)"
proof -
  have later: "WaitForCacheSync False \<notin> set (fst (prepareConfig op res))"
      "WaitForCacheSync False \<notin> set (fst (loadCertChain op' rounds))"
      "WaitForCacheSync False \<notin> set (fst (serving env chain))"
      "WaitForCacheSync False \<notin> set (fst (notifier evs))"
    for res op' rounds chain evs
    using prepareConfig_step loadCertChain_step serving_step notifier_step by fastforce+
  show ?thesis
  proof (cases "sync_result env")
    case True
    with assms later show ?thesis
      by (auto simp: Run_split startup_def fst_andThen waitForCacheSync_def split: outcome.splits)
  next
    case False
    with assms later show ?thesis
      by (auto simp: Run_split startup_def fst_andThen snd_andThen waitForCacheSync_def fromStep_def
          split: outcome.splits dest: notifier_step)
  qed
qed





text \<open>Two runs: one that reaches the API server and one whose cache sync fails.\<close>

lemma example_run:
  "Run exampleOperator exampleEnv =
  ([Log Info ''Dapr Operator is starting'' [], GoMgrStart,
   Log Debug ''Observed component to be synced, %s/%s'' [''default'', ''statestore''],
   OnComponentUpdated exampleComponent,
   WaitForCacheSync True, LoadConfiguration ''daprsystem'' True,
   NewTLSCredentialsE ''/certs'', Log Info ''Getting TLS certificates'' [],
   WithTimeoutMinute, GoWatch ''/certs'',
   LoadFromDiskE ''/certs/ca.pem'' ''/certs/cert.pem'' ''/certs/key.pem'' True,
   Log Info ''TLS certificates loaded successfully'' [], WatchCancel,
   NewHealthServer, GoHealthzRun 8080,
   ApiServerRun exampleChain,
   ApiListening, HealthzReady, Log Info ''Dapr Operator started'' []],
  Pending)"
  by (simp add: Run_def exampleOperator_def exampleEnv_def AddFunc_def exampleComponent_def
      waitForCacheSync_def prepareConfig_def loadCertChain_def NewTLSCredentials_def
      Path_def RootCertPath_def CertPath_def KeyPath_def LoadFromDisk_def exampleDisk_def
      healthzPort_def apiServerRun_def onReady_def exampleChain_def)

lemma failed_sync_run:
  "Run exampleOperator (exampleEnv\<lparr>sync_result := False\<rparr>) =
  ([Log Info ''Dapr Operator is starting'' [], GoMgrStart,
   Log Debug ''Observed component to be synced, %s/%s'' [''default'', ''statestore''],
   OnComponentUpdated exampleComponent,
   WaitForCacheSync False, Log Fatal ''Failed to wait for cache sync'' []], Exit)"
  by (simp add: Run_def exampleOperator_def exampleEnv_def AddFunc_def exampleComponent_def
      waitForCacheSync_def)

section \<open>Run: the startup sequence\<close>

text \<open>
  Claim C6.  In every execution of \<open>Run\<close>, also one cut short by a goroutine's
  \<open>log.Fatal\<close>: the start of the manager is the first call (only a log line comes
  before it); no effect of the configuration step or of a later step occurs unless
  \<open>WaitForCacheSync\<close> has returned true before it; no effect of the certificate step
  or of a later step occurs unless \<open>LoadConfiguration\<close> has succeeded before it; and
  no effect of the health server or of the API server occurs unless \<open>LoadFromDisk\<close>
  has succeeded before it.  When \<open>WaitForCacheSync\<close> returns false the process exits
  and nothing of the configuration step or of a later step has been done.
\<close>

theorem startup_steps_sequential:
  "precedes (\<lambda>e. e = GoMgrStart) (\<lambda>e. \<not> isLog e) (observed n op env) \<and>
   precedes (\<lambda>e. e = WaitForCacheSync True) (fromStep 3) (observed n op env) \<and>
   precedes isConfigLoaded (fromStep 4) (observed n op env) \<and>
   precedes isChainLoaded (fromStep 5) (observed n op env) \<and>
   (WaitForCacheSync False \<in> set (fst (Run op env)) \<longrightarrow>
      snd (Run op env) = Exit \<and> (\<forall>e\<in>set (fst (Run op env)). \<not> fromStep 3 e))"
  unfolding observed_def
  using manager_first[of op env] sync_before_config[of op env] config_before_chain[of op env]
    chain_before_serving[of op env] sync_failure[of op env]
  by (simp add: precedes_take)

theorem startup_steps_sequential_witness:
  "WaitForCacheSync False \<in> set (fst (Run exampleOperator (exampleEnv\<lparr>sync_result := False\<rparr>))) \<and>
   snd (Run exampleOperator (exampleEnv\<lparr>sync_result := False\<rparr>)) = Exit \<and>
   \<not> list_ex (fromStep 3) (fst (Run exampleOperator (exampleEnv\<lparr>sync_result := False\<rparr>))) \<and>
   precedes isChainLoaded (fromStep 5) (observed 20 exampleOperator exampleEnv) \<and>
   list_ex (fromStep 5) (observed 20 exampleOperator exampleEnv)"
  using startup_steps_sequential[of 20 exampleOperator "exampleEnv\<lparr>sync_result := False\<rparr>"]
    startup_steps_sequential[of 20 exampleOperator exampleEnv]
  by (simp add: failed_sync_run example_run observed_def fromStep_def)

section \<open>Run: readiness\<close>



section \<open>Run: change notifications and the cache sync\<close>

lemma forwarded_append: "forwarded (xs @ ys) = forwarded xs @ forwarded ys"
  by (induction xs rule: forwarded.induct) auto

lemma notifier_forwards: "forwarded (fst (notifier evs)) = delivered evs"
  by (induction evs rule: delivered.induct)
     (auto simp: fst_andThen AddFunc_def UpdateFunc_def forwarded_append split: outcome.splits)

text \<open>
  Claim C2, as amended.  In every execution of \<open>Run\<close>, \<open>OnComponentUpdated\<close> is
  invoked only after the manager has been started, and whatever \<open>WaitForCacheSync\<close>
  returns, the components forwarded to \<open>OnComponentUpdated\<close> before the return of
  \<open>WaitForCacheSync\<close> are the non-nil \<open>*Component\<close> objects that the cache has
  delivered by then with its add and update events, each at its delivery and in the
  order of delivery.
\<close>

theorem notifications_do_not_wait_for_sync:
  "precedes (\<lambda>e. e = GoMgrStart) isNotification (observed n op env) \<and>
   forwarded (takeWhile (\<lambda>e. step e \<noteq> 2) (fst (Run op env))) =
     delivered (events_before_sync env)"
proof -
  have "precedes (\<lambda>e. e = GoMgrStart) isNotification (fst (Run op env))"
    by (simp add: Run_def fst_andThen)
  moreover have N: "takeWhile (\<lambda>e. step e \<noteq> 2) (fst (notifier evs) @ ys) =
      fst (notifier evs) @ takeWhile (\<lambda>e. step e \<noteq> 2) ys" for evs ys
    by (rule takeWhile_all) (use notifier_step in fastforce)
  ultimately show ?thesis
    by (simp add: observed_def precedes_take Run_def fst_andThen N waitForCacheSync_def
          forwarded_append notifier_forwards split: outcome.splits)
qed

text \<open>
  Claim C2 as stated fails: when the cache delivers a component after the manager has
  been started and before \<open>WaitForCacheSync\<close> returns, \<open>OnComponentUpdated\<close> is
  invoked before \<open>WaitForCacheSync\<close> has returned true.
\<close>

theorem notification_before_sync:
  "observed 5 exampleOperator exampleEnv =
     [Log Info ''Dapr Operator is starting'' [], GoMgrStart,
      Log Debug ''Observed component to be synced, %s/%s'' [''default'', ''statestore''],
      OnComponentUpdated exampleComponent,
      WaitForCacheSync True]"
  by (simp add: observed_def example_run)

section \<open>The certificate chain\<close>

lemma LoadFromDisk_Inr:
  "LoadFromDisk disk (RootCertPath cr) (CertPath cr) (KeyPath cr) = Inr chain \<Longrightarrow>
   fullyLoaded cr disk chain"
  by (auto simp: fullyLoaded_def LoadFromDisk_def split: option.splits)

lemma readable_Inr:
  "readable cr disk \<Longrightarrow>
   \<exists>chain. LoadFromDisk disk (RootCertPath cr) (CertPath cr) (KeyPath cr) = Inr chain"
  by (auto simp: readable_def LoadFromDisk_def split: option.splits)

lemma unreadable_Inl:
  "\<not> readable cr disk \<Longrightarrow>
   \<exists>e. LoadFromDisk disk (RootCertPath cr) (CertPath cr) (KeyPath cr) = Inl e"
  by (auto simp: readable_def LoadFromDisk_def split: option.splits)

lemma certLoop_Done:
  "snd (certLoop cr closed rounds) = Done chain \<Longrightarrow>
   \<exists>r\<in>set rounds. fullyLoaded cr (fst r) chain"
  by (induction closed rounds rule: certLoop_induct[where cr = cr])
     (auto simp: certLoop_rounds LoadFromDisk_Inr simp del: certLoop.simps(2) split: if_splits)

lemma loadCertChain_Done:
  "snd (loadCertChain op rounds) = Done chain \<Longrightarrow>
   \<exists>cfg. config op = Some cfg \<and> (\<exists>r\<in>set rounds. fullyLoaded (Credentials cfg) (fst r) chain)"
  by (auto simp: loadCertChain_def snd_andThen split: option.splits outcome.splits
           dest: certLoop_Done)

lemma startup_Done:
  "snd (startup op env) = Done chain \<Longrightarrow>
   \<exists>r\<in>set (cert_rounds env). fullyLoaded (NewTLSCredentials (certChainPath op)) (fst r) chain"
proof -
  assume d: "snd (startup op env) = Done chain"
  then obtain cfg where
    "snd (loadCertChain
            (op\<lparr>config := Some (cfg\<lparr>Credentials := NewTLSCredentials (certChainPath op)\<rparr>)\<rparr>)
            (cert_rounds env)) = Done chain"
    by (auto simp: startup_def snd_andThen prepareConfig_def split: outcome.splits sum.splits)
  from loadCertChain_Done[OF this] show ?thesis by auto
qed

lemma serving_chain: "ApiServerRun chain \<in> set (fst (serving env c)) \<Longrightarrow> chain = c"
  by (auto simp: serving_def fst_andThen apiServerRun_def onReady_def
        split: outcome.splits if_splits dest: notifier_step)

lemma Run_chain:
  "ApiServerRun chain \<in> set (fst (Run op env)) \<Longrightarrow> snd (startup op env) = Done chain"
  using startup_step[of "ApiServerRun chain" op env]
  by (auto simp: Run_split fst_andThen split: outcome.splits dest: serving_chain)

lemma example_load:
  "loadCertChain loadedOperator [(exampleDisk, FsEvent)] =
   ([Log Info ''Getting TLS certificates'' [], WithTimeoutMinute, GoWatch ''/certs'',
     LoadFromDiskE ''/certs/ca.pem'' ''/certs/cert.pem'' ''/certs/key.pem'' True,
     Log Info ''TLS certificates loaded successfully'' [], WatchCancel],
    Done exampleChain)"
  by (simp add: loadCertChain_def loadedOperator_def NewTLSCredentials_def
      Path_def RootCertPath_def CertPath_def KeyPath_def LoadFromDisk_def exampleDisk_def
      exampleChain_def)

lemma example_readable: "readable (NewTLSCredentials ''/certs'') exampleDisk"
  by (simp add: readable_def NewTLSCredentials_def RootCertPath_def CertPath_def KeyPath_def
      exampleDisk_def)

lemma empty_unreadable: "\<not> readable (NewTLSCredentials ''/certs'') emptyDisk"
  by (simp add: readable_def emptyDisk_def)

lemma certLoop_no_cancel: "WatchCancel \<notin> set (fst (certLoop cr closed rounds))"
  by (induction closed rounds rule: certLoop_induct[where cr = cr])
     (auto simp: certLoop_rounds simp del: certLoop.simps(2))

lemma loadCertChain_config:
  "config op = Some cfg \<Longrightarrow>
   loadCertChain op rounds =
     (Log Info ''Getting TLS certificates'' [] # WithTimeoutMinute #
      GoWatch (Path (Credentials cfg)) #
      fst (certLoop (Credentials cfg) False rounds) @
      (case snd (certLoop (Credentials cfg) False rounds) of
         Done chain \<Rightarrow> [WatchCancel] | _ \<Rightarrow> []),
      snd (certLoop (Credentials cfg) False rounds))"
  by (simp add: loadCertChain_def fst_andThen snd_andThen split: outcome.splits)

text \<open>
  Claim C3.  Whenever \<open>loadCertChain\<close> returns a chain, one of the reads of the loop
  found all three files readable and the chain is made of their contents; and in every
  execution of \<open>Run\<close>, also one cut short, a chain passed to \<open>apiServer.Run\<close> is
  the chain the startup returned, read in full, from the paths of the credentials that
  \<open>prepareConfig\<close> attached, in one of the reads.
\<close>

theorem chain_handed_over_is_fully_loaded:
  "(snd (loadCertChain op rounds) = Done chain \<longrightarrow>
      (\<exists>cfg. config op = Some cfg \<and>
         (\<exists>r\<in>set rounds. fullyLoaded (Credentials cfg) (fst r) chain))) \<and>
   (ApiServerRun chain' \<in> set (observed n op' env) \<longrightarrow>
      snd (startup op' env) = Done chain' \<and>
      (\<exists>r\<in>set (cert_rounds env).
         fullyLoaded (NewTLSCredentials (certChainPath op')) (fst r) chain'))"
proof (intro conjI impI)
  assume "snd (loadCertChain op rounds) = Done chain"
  then show "\<exists>cfg. config op = Some cfg \<and>
         (\<exists>r\<in>set rounds. fullyLoaded (Credentials cfg) (fst r) chain)"
    by (rule loadCertChain_Done)
next
  assume "ApiServerRun chain' \<in> set (observed n op' env)"
  then have "ApiServerRun chain' \<in> set (fst (Run op' env))"
    unfolding observed_def by (rule in_set_takeD)
  then show d: "snd (startup op' env) = Done chain'" by (rule Run_chain)
  then show "\<exists>r\<in>set (cert_rounds env).
         fullyLoaded (NewTLSCredentials (certChainPath op')) (fst r) chain'"
    by (rule startup_Done)
qed

theorem chain_handed_over_is_fully_loaded_witness:
  "snd (loadCertChain loadedOperator [(exampleDisk, FsEvent)]) = Done exampleChain \<and>
   ApiServerRun exampleChain \<in> set (observed 20 exampleOperator exampleEnv) \<and>
   fullyLoaded (NewTLSCredentials ''/certs'') exampleDisk exampleChain"
proof -
  have rounds: "cert_rounds exampleEnv = [(exampleDisk, FsEvent)]"
    and path: "certChainPath exampleOperator = ''/certs''"
    by (simp_all add: exampleEnv_def exampleOperator_def)
  show ?thesis
    using chain_handed_over_is_fully_loaded
      [of loadedOperator "[(exampleDisk, FsEvent)]" exampleChain exampleChain 20
          exampleOperator exampleEnv]
    by (simp add: example_load example_run observed_def rounds path)
qed

text \<open>
  Claim C5, as amended.  When the three files are readable at the first read,
  \<open>loadCertChain\<close> makes exactly one read and never receives from the watch's event
  channel, and the goroutine that runs the filesystem watch has been started before that
  read.  Unless the watch goroutine ends the process in the meantime, the function then
  returns the chain made of the files' contents, \<open>watchCancel()\<close> being the last thing
  the main goroutine does in it; when the watch goroutine ends the process, the function
  does not return.
\<close>

theorem chain_loaded_on_first_read:
  assumes "config op = Some cfg" and "readable (Credentials cfg) disk"
  shows "length (filter isLoadFromDisk (fst (loadCertChain op ((disk, w) # rest)))) = 1 \<and>
         RecvFsevent \<notin> set (fst (loadCertChain op ((disk, w) # rest))) \<and>
         precedes isGoWatch isLoadFromDisk (fst (loadCertChain op ((disk, w) # rest))) \<and>
         list_ex isGoWatch (fst (loadCertChain op ((disk, w) # rest))) \<and>
         (\<not> endsProcess w \<longrightarrow>
            (\<exists>chain. snd (loadCertChain op ((disk, w) # rest)) = Done chain \<and>
               fullyLoaded (Credentials cfg) disk chain) \<and>
            last (fst (loadCertChain op ((disk, w) # rest))) = WatchCancel) \<and>
         (endsProcess w \<longrightarrow> snd (loadCertChain op ((disk, w) # rest)) = Exit)"
proof -
  from readable_Inr[OF assms(2)] obtain chain where
    c: "LoadFromDisk disk (RootCertPath (Credentials cfg)) (CertPath (Credentials cfg))
          (KeyPath (Credentials cfg)) = Inr chain"
    by blast
  show ?thesis
    using LoadFromDisk_Inr[OF c]
    by (simp add: loadCertChain_config[OF assms(1)] certLoop_loaded_round[OF c]
          del: certLoop.simps(2))
qed

theorem chain_loaded_on_first_read_witness:
  "config loadedOperator = Some \<lparr>settings = [], Credentials = NewTLSCredentials ''/certs''\<rparr> \<and>
   readable (NewTLSCredentials ''/certs'') exampleDisk \<and>
   \<not> endsProcess FsEvent \<and>
   snd (loadCertChain loadedOperator [(exampleDisk, FsEvent)]) = Done exampleChain \<and>
   RecvFsevent \<notin> set (fst (loadCertChain loadedOperator [(exampleDisk, FsEvent)])) \<and>
   last (fst (loadCertChain loadedOperator [(exampleDisk, FsEvent)])) = WatchCancel \<and>
   endsProcess (WatchEnds (Some (OtherError ''too many open files'')) None) \<and>
   snd (loadCertChain loadedOperator
          [(exampleDisk, WatchEnds (Some (OtherError ''too many open files'')) None)]) = Exit"
proof -
  have cfg: "config loadedOperator =
      Some \<lparr>settings = [], Credentials = NewTLSCredentials ''/certs''\<rparr>"
    by (simp add: loadedOperator_def)
  have rd: "readable (Credentials \<lparr>settings = [], Credentials = NewTLSCredentials ''/certs''\<rparr>)
      exampleDisk"
    using example_readable by simp
  have e: "endsProcess (WatchEnds (Some (OtherError ''too many open files'')) None)"
    by (simp add: afterWatch_def)
  show ?thesis
    using chain_loaded_on_first_read[OF cfg rd, of FsEvent "[]"]
      chain_loaded_on_first_read[OF cfg rd,
        of "WatchEnds (Some (OtherError ''too many open files'')) None" "[]"]
      cfg example_readable e
    by (simp add: example_load)
qed

text \<open>
  Claim C5 as stated fails: with the three files readable at call time the filesystem
  watch is started all the same.
\<close>

theorem watch_started_although_files_readable:
  "readable (NewTLSCredentials ''/certs'') exampleDisk \<and>
   list_ex isGoWatch (fst (loadCertChain loadedOperator [(exampleDisk, FsEvent)]))"
  by (simp add: example_load example_readable)

text \<open>
  The end of a wait for files that never come.  The goroutine logs the timeout only when
  the watch has returned nil or \<open>context.Canceled\<close> while the context's deadline is
  exceeded: a watch that returns the error of its context never gets there.  And once the
  goroutine has closed the channel without ending the process, every further round of the
  main goroutine is a read that fails and a receive that returns at once: the loop does
  not leave and the process does not end.
\<close>

lemma timeout_needs_other_error:
  "Log Fatal timeoutMessage [] \<in> set (fst (watchGoroutine path werr ctxErr)) \<Longrightarrow>
   ctxErr = Some DeadlineExceeded \<and> werr \<noteq> ctxErr"
  by (auto simp: watchGoroutine_def afterWatch_def timeoutMessage_def split: if_splits)

lemma closed_loop_spins:
  "\<forall>r\<in>set rounds. \<not> readable cr (fst r) \<Longrightarrow>
   snd (certLoop cr True rounds) = Pending \<and>
   length (filter isLoadFromDisk (fst (certLoop cr True rounds))) = length rounds \<and>
   length (filter (\<lambda>e. e = RecvFsevent) (fst (certLoop cr True rounds))) = length rounds"
proof (induction rounds)
  case Nil
  then show ?case by simp
next
  case (Cons r rounds)
  obtain disk w where r: "r = (disk, w)" by (cases r)
  from Cons.prems have "\<not> readable cr disk" by (simp add: r)
  from unreadable_Inl[OF this] obtain e where
    e: "LoadFromDisk disk (RootCertPath cr) (CertPath cr) (KeyPath cr) = Inl e" by blast
  from Cons show ?case
    by (simp add: r certLoop_closed_round[OF e] del: certLoop.simps(2))
qed

text \<open>
  Claim C4: when the files do not become available before the deadline, the load ends
  with a timeout failure at or after the deadline, and does not hang.  The code departs
  from it.  With no file and no filesystem event, the watch returns at the deadline with
  the error of its context, \<open>context.DeadlineExceeded\<close>; this is not
  \<open>context.Canceled\<close>, so the goroutine ends the process with the message of
  a watch that could not be started and never reaches its timeout branch.  And when the watch returns
  \<open>context.Canceled\<close> with the context cancelled, the goroutine closes the channel and
  returns, and the main goroutine goes on reading without waiting, and without end.
\<close>

theorem deadline_reported_as_watch_error:
  "watchGoroutine ''/certs'' (Some DeadlineExceeded) (Some DeadlineExceeded) =
     ([Log Info ''Starting watch for certs on filesystem: %s'' [''/certs''],
       WatchReturned,
       Log Fatal ''Error starting watch on filesystem: %s'' [''context deadline exceeded'']],
      Exit) \<and>
   loadCertChain loadedOperator
     [(emptyDisk, WatchEnds (Some DeadlineExceeded) (Some DeadlineExceeded))] =
     ([Log Info ''Getting TLS certificates'' [], WithTimeoutMinute, GoWatch ''/certs'',
       LoadFromDiskE ''/certs/ca.pem'' ''/certs/cert.pem'' ''/certs/key.pem'' False,
       Log Info ''TLS certificate not found; waiting for disk changes. err=%v''
         [''cannot read /certs/ca.pem'']],
      Exit) \<and>
   watchGoroutine ''/certs'' (Some Canceled) (Some Canceled) =
     ([Log Info ''Starting watch for certs on filesystem: %s'' [''/certs''],
       WatchReturned, CloseFsevent],
      Done ()) \<and>
   loadCertChain loadedOperator
     [(emptyDisk, WatchEnds (Some Canceled) (Some Canceled)), (emptyDisk, FsEvent)] =
     ([Log Info ''Getting TLS certificates'' [], WithTimeoutMinute, GoWatch ''/certs'',
       LoadFromDiskE ''/certs/ca.pem'' ''/certs/cert.pem'' ''/certs/key.pem'' False,
       Log Info ''TLS certificate not found; waiting for disk changes. err=%v''
         [''cannot read /certs/ca.pem''],
       RecvFsevent, Log Debug ''Watcher found activity on filesystem'' [],
       LoadFromDiskE ''/certs/ca.pem'' ''/certs/cert.pem'' ''/certs/key.pem'' False,
       Log Info ''TLS certificate not found; waiting for disk changes. err=%v''
         [''cannot read /certs/ca.pem''],
       RecvFsevent, Log Debug ''Watcher found activity on filesystem'' []],
      Pending)"
  by (simp add: watchGoroutine_def afterWatch_def loadCertChain_def loadedOperator_def
      NewTLSCredentials_def Path_def RootCertPath_def CertPath_def KeyPath_def
      LoadFromDisk_def emptyDisk_def receive_def)

section \<open>The Change Notifier: what is forwarded\<close>

text \<open>
  Claim C8, as amended.  For the payload of every add or update callback,
  \<open>OnComponentUpdated\<close> is invoked with a component exactly when the payload is a
  non-nil \<open>*Component\<close> pointing to it; a payload of any other type is dropped with no
  call and with no log entry at all, and the handler returns normally.
\<close>

theorem syncComponent_forwards_components_only:
  "((OnComponentUpdated c \<in> set (fst (AddFunc ob))) = (ob = ComponentPtr (Some c))) \<and>
   ((OnComponentUpdated c \<in> set (fst (UpdateFunc oldObj ob))) = (ob = ComponentPtr (Some c))) \<and>
   ((\<forall>p. ob \<noteq> ComponentPtr p) \<longrightarrow>
      AddFunc ob = ([], Done ()) \<and> UpdateFunc oldObj ob = ([], Done ()))"
  by (cases ob rule: syncComponent.cases) (auto simp: AddFunc_def UpdateFunc_def)

theorem syncComponent_forwards_components_only_witness:
  "((OnComponentUpdated exampleComponent \<in> set (fst (AddFunc (OtherObj ''*v1.Pod'')))) =
      (OtherObj ''*v1.Pod'' = ComponentPtr (Some exampleComponent))) \<and>
   (\<forall>p. OtherObj ''*v1.Pod'' \<noteq> ComponentPtr p) \<and>
   AddFunc (OtherObj ''*v1.Pod'') = ([], Done ()) \<and>
   UpdateFunc NilObj (OtherObj ''*v1.Pod'') = ([], Done ())"
  using syncComponent_forwards_components_only
    [of exampleComponent "OtherObj ''*v1.Pod''" NilObj]
  by simp

text \<open>
  Claim C8 as stated fails: for a payload of another type, here a \<open>*v1.Pod\<close>, the
  handler writes no log entry.
\<close>

theorem mismatched_payload_not_logged:
  "\<not> list_ex isLog (fst (AddFunc (OtherObj ''*v1.Pod'')))"
  by (simp add: AddFunc_def)

text \<open>
  Claim C10.  What the notifier does for an update event depends on the new object only:
  in any sequence of events, replacing the old object of an update event by another one
  changes neither the calls of \<open>OnComponentUpdated\<close>, nor the log, nor the outcome.
\<close>

theorem update_ignores_old_object:
  "notifier (before @ Update old1 newObj # after) =
   notifier (before @ Update old2 newObj # after)"
  by (induction before) (simp_all add: UpdateFunc_def)

section \<open>NewOperator: leader election\<close>

text \<open>
  Claim C7: with the watchdog enabled and leader election disabled, leader election is
  still enabled for the watchdog, the warning being the only other effect.  The code
  departs from it: NewOperator warns that leader election is forcibly enabled, and yet
  hands the manager the option as it was given, \<open>LeaderElection = false\<close>; the
  watchdog is added to that manager.
\<close>

theorem leader_election_not_forced:
  "fst (NewOperator exampleOptions noErrors) =
     [GetConfig,
      NewManager \<lparr>MetricsBindAddress = ''0'', mgr_LeaderElection = False,
                  LeaderElectionID = ''operator.dapr.io'', mgr_Namespace = []\<rparr>,
      Log Warn ''Leadership election is forcibly enabled when the Dapr Watchdog is enabled'' [],
      MgrAdd \<lparr>interval = 10000000000, maxRestartsPerMin = 2\<rparr>,
      NewAPIServer, GetInformer, AddEventHandler]"
  by (simp add: NewOperator_def exampleOptions_def noErrors_def checked_def addWatchdog_def
        initHandler_def)

section \<open>The Restart Watchdog: the budget\<close>

lemma minute_pos: "0 < minute"
  by (simp add: minute_def)

lemma issuedIn_append: "issuedIn w (xs @ ys) = issuedIn w xs + issuedIn w ys"
  by (simp add: issuedIn_def)



lemma openWindow_bound:
  "budgetOk limit b acts \<Longrightarrow> (\<forall>w. issuedIn w acts \<le> nat limit) \<Longrightarrow>
   windowStart b \<le> windowStart (openWindow now b)"
  using minute_pos by (auto simp: openWindow_def)
















lemma apart_sym: "apart v w \<Longrightarrow> apart w v"
  by (auto simp: apart_def)













end
